theory Spec2Isabelle
  imports Complex_Main "HOL-Library.Product_Lexorder"
begin

section \<open>Data model\<close>

text \<open>
  The tables of the fantasy-soccer database, as the migrations and
  \<^verbatim>\<open>src/types/database.ts\<close> declare them. A UUID is a 128-bit number and is
  modelled as a natural number (the code only compares and orders identifiers).
  A nullable column is an \<open>option\<close>; \<open>None\<close> is SQL NULL, JavaScript \<open>null\<close>.
  Point totals are INTEGER columns (\<open>int\<close>); prices are exact decimals (\<open>rat\<close>).
  Timestamps are integers (microseconds since the epoch).
\<close>

type_synonym uuid = nat

datatype position = GK | DEF | MID | FWD

record player =
  position :: position
  price :: rat

record roster =
  roster_id :: uuid
  fantasy_team_id :: "uuid option"
  player_id :: uuid
  is_starter :: "bool option"
  is_captain :: "bool option"
  is_vice_captain :: "bool option"
  purchase_price :: rat

record gameweek_score =
  total_points :: "int option"
  minutes_played :: "int option"

datatype match_status = scheduled | live | completed | postponed

record real_match =
  match_id :: uuid
  gameweek :: int
  match_status :: match_status

record fantasy_team =
  team_id :: uuid
  league_id :: "uuid option"
  team_total_points :: int
  gameweek_points :: int
  rank :: int
  budget_remaining :: rat
  transfers_made_this_gw :: int
  transfers_banked :: int
  current_gameweek :: int

text \<open>A row of \<^verbatim>\<open>fantasy_team_gameweek_points\<close>, unique per (team, gameweek).\<close>

record gameweek_points_row =
  fgp_fantasy_team_id :: uuid
  fgp_gameweek :: int
  points :: int
  rank_in_league :: "int option"

datatype gameweek_status = upcoming | active | locked | finalized

record gameweek_row =
  gameweek_number :: int
  status :: gameweek_status
  is_current :: "bool option"
  is_next :: "bool option"
  deadline_time :: "int option"
  start_time :: "int option"
  end_time :: "int option"

datatype transaction_type = draft | transfer_in | transfer_out | captain_change

record transaction_row =
  tx_fantasy_team_id :: uuid
  tx_player_id :: uuid
  tx_type :: transaction_type
  tx_gameweek :: int
  tx_price :: rat
  transfer_cost :: rat

text \<open>
  The database. \<open>players\<close> is keyed by its primary key; \<open>gameweek_scores\<close> by
  (player, gameweek), the key the score upserts use. The other tables are lists in
  table (listing) order.
\<close>

record database =
  players :: "uuid \<rightharpoonup> player"
  rosters :: "roster list"
  gameweek_scores :: "uuid \<times> int \<rightharpoonup> gameweek_score"
  real_matches :: "real_match list"
  fantasy_teams :: "fantasy_team list"
  fantasy_team_gameweek_points :: "gameweek_points_row list"
  gameweeks :: "gameweek_row list"
  transactions :: "transaction_row list"

section \<open>SQL helpers\<close>

text \<open>\<^verbatim>\<open>COALESCE(x, d)\<close>.\<close>

definition coalesce :: "'a option \<Rightarrow> 'a \<Rightarrow> 'a" where
  "coalesce x d = (case x of None \<Rightarrow> d | Some v \<Rightarrow> v)"

text \<open>
  \<^verbatim>\<open>ORDER BY x DESC NULLS LAST\<close> on a nullable integer, as an ascending sort key:
  stored values first, larger ones earlier, NULLs after all of them.
\<close>

definition desc_nulls_last :: "int option \<Rightarrow> nat \<times> int" where
  "desc_nulls_last x = (case x of Some v \<Rightarrow> (0, - v) | None \<Rightarrow> (1, 0))"

text \<open>
  \<^verbatim>\<open>ORDER BY b DESC\<close> on a nullable boolean: PostgreSQL puts NULLs first in a
  descending order, then true, then false.
\<close>

definition bool_desc :: "bool option \<Rightarrow> nat" where
  "bool_desc b = (case b of None \<Rightarrow> 0 | Some True \<Rightarrow> 1 | Some False \<Rightarrow> 2)"

section \<open>Team points: the database procedure\<close>

text \<open>
  \<^verbatim>\<open>calculate_fantasy_team_points(p_fantasy_team_id, p_gameweek)\<close> of migration
  \<^verbatim>\<open>20250617152340_foggy_dune.sql\<close>.

  A row of the main query: \<open>rosters r JOIN players p LEFT JOIN gameweek_scores gs\<close>.
  \<open>gs_total_points\<close> is the raw \<open>gs.total_points\<close> the ORDER BY reads.
\<close>

record player_record =
  pr_player_id :: uuid
  pr_is_starter :: "bool option"
  pr_is_captain :: "bool option"
  pr_position :: position
  player_points :: int
  pr_minutes_played :: int
  gs_total_points :: "int option"

text \<open>The joined row of one roster row; the inner JOIN drops a row without a player.\<close>

definition join_roster :: "database \<Rightarrow> int \<Rightarrow> roster \<Rightarrow> player_record option" where
  "join_roster db p_gameweek r =
     (case players db (player_id r) of
        None \<Rightarrow> None
      | Some p \<Rightarrow>
          let gs = gameweek_scores db (player_id r, p_gameweek) in
          Some \<lparr> pr_player_id = player_id r,
                 pr_is_starter = is_starter r,
                 pr_is_captain = is_captain r,
                 pr_position = position p,
                 player_points = coalesce (Option.bind gs total_points) 0,
                 pr_minutes_played = coalesce (Option.bind gs minutes_played) 0,
                 gs_total_points = Option.bind gs total_points \<rparr>)"

text \<open>
  The rows of a query in table order, before ORDER BY: the team's roster rows, joined.
\<close>

definition team_rows :: "database \<Rightarrow> uuid \<Rightarrow> int \<Rightarrow> player_record list" where
  "team_rows db p_fantasy_team_id p_gameweek =
     List.map_filter (join_roster db p_gameweek)
       (filter (\<lambda>r. fantasy_team_id r = Some p_fantasy_team_id) (rosters db))"

text \<open>
  The main query, \<^verbatim>\<open>ORDER BY r.is_starter DESC, gs.total_points DESC NULLS LAST\<close>.
  SQL leaves the order of rows with equal keys open; the model keeps them in table
  order (a stable sort).
\<close>

definition main_query :: "database \<Rightarrow> uuid \<Rightarrow> int \<Rightarrow> player_record list" where
  "main_query db p_fantasy_team_id p_gameweek =
     sort_key (\<lambda>pr. (bool_desc (pr_is_starter pr), desc_nulls_last (gs_total_points pr)))
       (team_rows db p_fantasy_team_id p_gameweek)"

text \<open>
  The rows the substitute query ranks: bench rows (\<open>is_starter = false\<close>) of the team
  at the position, with \<open>COALESCE(minutes_played, 0) > 0\<close>.
\<close>

definition eligible_substitutes :: "database \<Rightarrow> uuid \<Rightarrow> int \<Rightarrow> position \<Rightarrow> player_record list" where
  "eligible_substitutes db p_fantasy_team_id p_gameweek pos =
     filter (\<lambda>pr. pr_is_starter pr = Some False \<and> pr_position pr = pos \<and> pr_minutes_played pr > 0)
       (team_rows db p_fantasy_team_id p_gameweek)"

text \<open>
  The substitute query: \<^verbatim>\<open>ORDER BY gs2.total_points DESC NULLS LAST LIMIT 1\<close>.
  \<open>None\<close> is a \<open>substitute_record\<close> whose \<open>player_id\<close> is NULL (no row found).
\<close>

definition find_substitute :: "database \<Rightarrow> uuid \<Rightarrow> int \<Rightarrow> position \<Rightarrow> player_record option" where
  "find_substitute db p_fantasy_team_id p_gameweek pos =
     (case sort_key (\<lambda>pr. desc_nulls_last (gs_total_points pr))
             (eligible_substitutes db p_fantasy_team_id p_gameweek pos) of
        [] \<Rightarrow> None
      | s # _ \<Rightarrow> Some s)"

text \<open>
  One pass of the loop body over \<open>player_record\<close>; the state is
  \<open>(total_points, captain_points)\<close>.
\<close>

definition points_step :: "database \<Rightarrow> uuid \<Rightarrow> int \<Rightarrow> int \<times> int \<Rightarrow> player_record \<Rightarrow> int \<times> int" where
  "points_step db p_fantasy_team_id p_gameweek st pr =
     (case st of (team_total, captain_points) \<Rightarrow>
        if pr_is_starter pr = Some True then
          if pr_minutes_played pr = 0 then
            (case find_substitute db p_fantasy_team_id p_gameweek (pr_position pr) of
               Some sub \<Rightarrow>
                 (team_total + player_points sub,
                  if pr_is_captain pr = Some True then player_points sub else captain_points)
             | None \<Rightarrow> (team_total, captain_points))
          else
            (team_total + player_points pr,
             if pr_is_captain pr = Some True then player_points pr else captain_points)
        else (team_total, captain_points))"

text \<open>
  \<^verbatim>\<open>SELECT player_id INTO vice_captain_id FROM rosters WHERE ... is_vice_captain = true\<close>:
  the first such row, or NULL.
\<close>

definition vice_captain_id :: "database \<Rightarrow> uuid \<Rightarrow> uuid option" where
  "vice_captain_id db p_fantasy_team_id =
     map_option player_id
       (find (\<lambda>r. fantasy_team_id r = Some p_fantasy_team_id \<and> is_vice_captain r = Some True)
          (rosters db))"

text \<open>
  The captain multiplier after the loop. The vice-captain SELECT INTO leaves
  \<open>captain_points\<close> NULL when the vice-captain has no score row, and then
  \<open>captain_points > 0\<close> is not true.
\<close>

definition captain_bonus :: "database \<Rightarrow> uuid \<Rightarrow> int \<Rightarrow> int \<Rightarrow> int" where
  "captain_bonus db p_fantasy_team_id p_gameweek captain_points =
     (if captain_points > 0 then captain_points
      else
        (case vice_captain_id db p_fantasy_team_id of
           None \<Rightarrow> 0
         | Some v \<Rightarrow>
             (case gameweek_scores db (v, p_gameweek) of
                None \<Rightarrow> 0
              | Some gs \<Rightarrow>
                  let vice_points = coalesce (total_points gs) 0 in
                  if vice_points > 0 then vice_points else 0)))"

definition calculate_fantasy_team_points :: "database \<Rightarrow> uuid \<Rightarrow> int \<Rightarrow> int" where
  "calculate_fantasy_team_points db p_fantasy_team_id p_gameweek =
     (case foldl (points_step db p_fantasy_team_id p_gameweek) (0, 0)
             (main_query db p_fantasy_team_id p_gameweek) of
        (team_total, captain_points) \<Rightarrow>
          team_total + captain_bonus db p_fantasy_team_id p_gameweek captain_points)"

section \<open>Team points: the client-side fallback\<close>

text \<open>
  \<^verbatim>\<open>calculateTeamPointsManual(fantasyTeamId, gameweek)\<close> of
  \<^verbatim>\<open>src/components/admin/GameweekManager.tsx\<close>. The roster is read in listing
  order with the player's position embedded (\<open>players?.position\<close>, undefined when
  the player row is missing). \<open>x || 0\<close> on a nullable number is \<open>coalesce x 0\<close>;
  \<open>!b\<close> on a nullable boolean holds for \<open>null\<close> and \<open>false\<close>.
\<close>

definition embedded_position :: "database \<Rightarrow> roster \<Rightarrow> position option" where
  "embedded_position db r = map_option position (players db (player_id r))"

definition score_points :: "database \<Rightarrow> uuid \<Rightarrow> int \<Rightarrow> int" where
  "score_points db pid gw = coalesce (Option.bind (gameweek_scores db (pid, gw)) total_points) 0"

definition score_minutes :: "database \<Rightarrow> uuid \<Rightarrow> int \<Rightarrow> int" where
  "score_minutes db pid gw = coalesce (Option.bind (gameweek_scores db (pid, gw)) minutes_played) 0"

text \<open>The loop body; the state is \<open>(totalPoints, captainPoints)\<close>.\<close>

definition manual_step :: "database \<Rightarrow> int \<Rightarrow> roster list \<Rightarrow> int \<times> int \<Rightarrow> roster \<Rightarrow> int \<times> int" where
  "manual_step db gw roster_rows st rosterPlayer =
     (case st of (totalPoints, captainPoints) \<Rightarrow>
        if is_starter rosterPlayer \<noteq> Some True then (totalPoints, captainPoints)
        else
          let playerPoints = score_points db (player_id rosterPlayer) gw;
              minutesPlayed = score_minutes db (player_id rosterPlayer) gw
          in
          if minutesPlayed = 0 then
            (case find (\<lambda>r. is_starter r \<noteq> Some True \<and>
                             embedded_position db r = embedded_position db rosterPlayer)
                    roster_rows of
               None \<Rightarrow> (totalPoints, captainPoints)
             | Some substitute \<Rightarrow>
                 let subPoints = score_points db (player_id substitute) gw;
                     subMinutes = score_minutes db (player_id substitute) gw
                 in
                 if subMinutes > 0 then
                   (totalPoints + subPoints,
                    if is_captain rosterPlayer = Some True then subPoints else captainPoints)
                 else (totalPoints, captainPoints))
          else
            (totalPoints + playerPoints,
             if is_captain rosterPlayer = Some True then playerPoints else captainPoints))"

definition calculateTeamPointsManual :: "database \<Rightarrow> uuid \<Rightarrow> int \<Rightarrow> int" where
  "calculateTeamPointsManual db fantasyTeamId gw =
     (let roster_rows = filter (\<lambda>r. fantasy_team_id r = Some fantasyTeamId) (rosters db) in
      case foldl (manual_step db gw roster_rows) (0, 0) roster_rows of
        (totalPoints, captainPoints) \<Rightarrow> totalPoints + captainPoints)"

section \<open>Finalizing a gameweek\<close>

text \<open>
  \<^verbatim>\<open>finalize_gameweek(p_gameweek)\<close> of the same migration. The function runs in one
  transaction: \<^verbatim>\<open>RAISE EXCEPTION\<close> ends it with the error and the database as it
  was. The result is the outcome and the database after the call.
\<close>

datatype finalize_error = NotAllMatchesCompleted int

text \<open>
  \<^verbatim>\<open>INSERT ... ON CONFLICT (fantasy_team_id, gameweek) DO UPDATE SET points = EXCLUDED.points\<close>.
\<close>

definition upsert_points :: "uuid \<Rightarrow> int \<Rightarrow> int \<Rightarrow> gameweek_points_row list \<Rightarrow> gameweek_points_row list" where
  "upsert_points tid gw team_points ledger =
     (if list_ex (\<lambda>r. fgp_fantasy_team_id r = tid \<and> fgp_gameweek r = gw) ledger
      then map (\<lambda>r. if fgp_fantasy_team_id r = tid \<and> fgp_gameweek r = gw
                     then r\<lparr>points := team_points\<rparr> else r) ledger
      else ledger @ [\<lparr> fgp_fantasy_team_id = tid, fgp_gameweek = gw,
                       points = team_points, rank_in_league = None \<rparr>])"

text \<open>The body of the first loop, for one \<open>team_record\<close>.\<close>

definition finalize_team :: "int \<Rightarrow> database \<Rightarrow> uuid \<Rightarrow> database" where
  "finalize_team p_gameweek db tid =
     (let team_points = calculate_fantasy_team_points db tid p_gameweek in
      db\<lparr> fantasy_team_gameweek_points :=
            upsert_points tid p_gameweek team_points (fantasy_team_gameweek_points db),
          fantasy_teams :=
            map (\<lambda>t. if team_id t = tid
                      then t\<lparr> team_total_points := team_total_points t + team_points,
                              gameweek_points := team_points,
                              current_gameweek := p_gameweek + 1,
                              transfers_made_this_gw := 0,
                              transfers_banked := min (transfers_banked t + 1) 1 \<rparr>
                      else t)
              (fantasy_teams db) \<rparr>)"

text \<open>
  \<^verbatim>\<open>FOR team_record IN SELECT fantasy_team_id, league_id FROM fantasy_teams ORDER BY fantasy_team_id\<close>:
  the rows are read when the loop starts.
\<close>

definition calculate_all_teams :: "int \<Rightarrow> database \<Rightarrow> database" where
  "calculate_all_teams p_gameweek db =
     foldl (finalize_team p_gameweek) db (sort (map team_id (fantasy_teams db)))"

text \<open>
  The inner query of the league loop: the league's teams joined with their ledger rows
  of the gameweek, \<^verbatim>\<open>ORDER BY fgp.points DESC\<close> (rows with equal points stay in
  table order).
\<close>

definition league_ranking :: "int \<Rightarrow> database \<Rightarrow> uuid \<Rightarrow> uuid list" where
  "league_ranking p_gameweek db lid =
     map fst
       (sort_key (\<lambda>row. - snd row)
          (concat
             (map (\<lambda>ft. map (\<lambda>fgp. (team_id ft, points fgp))
                          (filter (\<lambda>fgp. fgp_fantasy_team_id fgp = team_id ft \<and>
                                          fgp_gameweek fgp = p_gameweek)
                             (fantasy_team_gameweek_points db)))
                (filter (\<lambda>ft. league_id ft = Some lid) (fantasy_teams db)))))"

definition set_rank_in_league :: "int \<Rightarrow> database \<times> int \<Rightarrow> uuid \<Rightarrow> database \<times> int" where
  "set_rank_in_league p_gameweek st tid =
     (case st of (db, rank_counter) \<Rightarrow>
        (db\<lparr> fantasy_team_gameweek_points :=
               map (\<lambda>r. if fgp_fantasy_team_id r = tid \<and> fgp_gameweek r = p_gameweek
                         then r\<lparr>rank_in_league := Some rank_counter\<rparr> else r)
                 (fantasy_team_gameweek_points db) \<rparr>,
         rank_counter + 1))"

definition rank_league :: "int \<Rightarrow> database \<Rightarrow> uuid \<Rightarrow> database" where
  "rank_league p_gameweek db lid =
     fst (foldl (set_rank_in_league p_gameweek) (db, 1) (league_ranking p_gameweek db lid))"

text \<open>\<^verbatim>\<open>SELECT DISTINCT league_id FROM fantasy_teams WHERE league_id IS NOT NULL\<close>.\<close>

definition calculate_league_rankings :: "int \<Rightarrow> database \<Rightarrow> database" where
  "calculate_league_rankings p_gameweek db =
     foldl (rank_league p_gameweek) db (remdups (List.map_filter league_id (fantasy_teams db)))"

text \<open>The overall ranking, \<^verbatim>\<open>ORDER BY total_points DESC\<close>.\<close>

definition set_rank :: "database \<times> int \<Rightarrow> uuid \<Rightarrow> database \<times> int" where
  "set_rank st tid =
     (case st of (db, rank_counter) \<Rightarrow>
        (db\<lparr> fantasy_teams :=
               map (\<lambda>t. if team_id t = tid then t\<lparr>rank := rank_counter\<rparr> else t)
                 (fantasy_teams db) \<rparr>,
         rank_counter + 1))"

definition update_overall_rankings :: "database \<Rightarrow> database" where
  "update_overall_rankings db =
     fst (foldl set_rank (db, 1)
            (map team_id (sort_key (\<lambda>t. - team_total_points t) (fantasy_teams db))))"

definition set_finalized :: "int \<Rightarrow> database \<Rightarrow> database" where
  "set_finalized p_gameweek db =
     db\<lparr> gameweeks :=
           map (\<lambda>g. if gameweek_number g = p_gameweek then g\<lparr>status := finalized\<rparr> else g)
             (gameweeks db) \<rparr>"

text \<open>The check the function opens with: some match of the gameweek is not completed.\<close>

definition has_unfinished_match :: "int \<Rightarrow> database \<Rightarrow> bool" where
  "has_unfinished_match p_gameweek db =
     list_ex (\<lambda>m. gameweek m = p_gameweek \<and> match_status m \<noteq> completed) (real_matches db)"

definition finalize_gameweek :: "int \<Rightarrow> database \<Rightarrow> (finalize_error + unit) \<times> database" where
  "finalize_gameweek p_gameweek db =
     (if has_unfinished_match p_gameweek db
      then (Inl (NotAllMatchesCompleted p_gameweek), db)
      else (Inr (),
            set_finalized p_gameweek
              (update_overall_rankings
                 (calculate_league_rankings p_gameweek
                    (calculate_all_teams p_gameweek db)))))"

section \<open>Gameweek calendar\<close>

text \<open>
  \<^verbatim>\<open>update_gameweek_status()\<close> and \<^verbatim>\<open>transfers_allowed()\<close> of the migration
  that adds the calendar columns. Both declare
  \<^verbatim>\<open>current_time TIMESTAMPTZ := now()\<close> and then write \<^verbatim>\<open>current_time\<close> inside
  their SQL statements. There \<^verbatim>\<open>current_time\<close> is the SQL keyword CURRENT_TIME, the
  time of day of type \<^verbatim>\<open>time with time zone\<close>: PL/pgSQL puts its variables in
  place of column references only, and a keyword is not one. The columns
  \<^verbatim>\<open>deadline_time\<close>, \<^verbatim>\<open>start_time\<close> and \<^verbatim>\<open>end_time\<close> are TIMESTAMPTZ, and
  PostgreSQL has no comparison operator between the two types (and no implicit cast
  from one to the other), so the analysis of such a statement, done before any row is
  read, ends with the error \<^verbatim>\<open>operator does not exist\<close> (SQLSTATE 42883).
\<close>

datatype sql_value = Timestamptz int | Timetz int

datatype sql_error = operator_does_not_exist

text \<open>The keyword's value when the clock shows \<open>now\<close>: the time of day.\<close>

definition CURRENT_TIME :: "int \<Rightarrow> sql_value" where
  "CURRENT_TIME now = Timetz (now mod 86400000000)"

text \<open>
  The operator lookup for a comparison of an operand with a TIMESTAMPTZ column; on
  success the comparison is on the timestamps. A comparison with a NULL timestamp is
  not true.
\<close>

definition compared_with_timestamptz :: "sql_value \<Rightarrow> sql_error + int" where
  "compared_with_timestamptz v =
     (case v of Timestamptz t \<Rightarrow> Inr t | Timetz _ \<Rightarrow> Inl operator_does_not_exist)"

text \<open>
  What the statements compute once their comparisons are resolved, with \<open>t\<close> the
  timestamp compared with the columns.
\<close>

definition min_number :: "int list \<Rightarrow> int option" where
  "min_number ns = (case ns of [] \<Rightarrow> None | n # rest \<Rightarrow> Some (fold min rest n))"

definition in_window :: "int \<Rightarrow> gameweek_row \<Rightarrow> bool" where
  "in_window t g =
     (case start_time g of
        None \<Rightarrow> False
      | Some s \<Rightarrow> (case end_time g of None \<Rightarrow> False | Some e \<Rightarrow> t \<ge> s \<and> t \<le> e))"

definition not_started :: "int \<Rightarrow> gameweek_row \<Rightarrow> bool" where
  "not_started t g = (case start_time g of None \<Rightarrow> False | Some s \<Rightarrow> t < s)"

text \<open>\<^verbatim>\<open>UPDATE gameweeks SET is_current = true WHERE gameweek_number = (subquery)\<close>.\<close>

definition set_current :: "int option \<Rightarrow> gameweek_row list \<Rightarrow> gameweek_row list" where
  "set_current n gws =
     map (\<lambda>g. if Some (gameweek_number g) = n then g\<lparr>is_current := Some True\<rparr> else g) gws"

definition set_next :: "int option \<Rightarrow> gameweek_row list \<Rightarrow> gameweek_row list" where
  "set_next n gws =
     map (\<lambda>g. if Some (gameweek_number g) = n then g\<lparr>is_next := Some True\<rparr> else g) gws"

text \<open>The last UPDATE: the CASE over the time window, for rows with a complete window.\<close>

definition time_status :: "int \<Rightarrow> gameweek_row \<Rightarrow> gameweek_row" where
  "time_status t g =
     (case deadline_time g of
        None \<Rightarrow> g
      | Some d \<Rightarrow>
          (case start_time g of
             None \<Rightarrow> g
           | Some s \<Rightarrow>
               (case end_time g of
                  None \<Rightarrow> g
                | Some e \<Rightarrow>
                    g\<lparr> status :=
                         (if t < d then upcoming
                          else if t \<ge> d \<and> t < s then locked
                          else if t \<ge> s \<and> t \<le> e then active
                          else if t > e then finalized
                          else status g) \<rparr>)))"

text \<open>The statements of \<^verbatim>\<open>update_gameweek_status()\<close>, one definition each.\<close>

definition reset_flags :: "gameweek_row list \<Rightarrow> gameweek_row list" where
  "reset_flags gws = map (\<lambda>g. g\<lparr>is_current := Some False, is_next := Some False\<rparr>) gws"

definition mark_live_current :: "int \<Rightarrow> gameweek_row list \<Rightarrow> gameweek_row list" where
  "mark_live_current t gws =
     set_current (min_number (map gameweek_number (filter (in_window t) gws))) gws"

definition mark_upcoming_current :: "int \<Rightarrow> gameweek_row list \<Rightarrow> gameweek_row list" where
  "mark_upcoming_current t gws =
     (if list_ex (\<lambda>g. is_current g = Some True) gws then gws
      else set_current (min_number (map gameweek_number (filter (not_started t) gws))) gws)"

definition mark_next :: "gameweek_row list \<Rightarrow> gameweek_row list" where
  "mark_next gws =
     set_next
       (case filter (\<lambda>g. is_current g = Some True) gws of
          [] \<Rightarrow> None
        | c # _ \<Rightarrow>
            min_number (map gameweek_number
              (filter (\<lambda>g. gameweek_number g > gameweek_number c) gws)))
       gws"


text \<open>
  \<^verbatim>\<open>transfers_allowed()\<close>: its only statement compares \<^verbatim>\<open>current_time\<close> with
  \<^verbatim>\<open>deadline_time\<close>.
\<close>

definition transfers_allowed :: "int \<Rightarrow> gameweek_row list \<Rightarrow> sql_error + bool" where
  "transfers_allowed now gws =
     (case compared_with_timestamptz (CURRENT_TIME now) of
        Inl e \<Rightarrow> Inl e
      | Inr t \<Rightarrow>
          let deadline_passed =
                list_ex (\<lambda>g. (is_current g = Some True \<or> is_next g = Some True) \<and>
                             (case deadline_time g of None \<Rightarrow> False | Some d \<Rightarrow> t \<ge> d)) gws
          in Inr (\<not> deadline_passed))"

section \<open>Transfers\<close>

text \<open>
  \<^verbatim>\<open>makeTransfer(outgoingPlayerId, incomingPlayerId, rosterId)\<close> of the
  \<^verbatim>\<open>useTransfers\<close> hook; \<open>fantasyTeamId\<close> and \<open>transferData\<close> are the hook's state.
  The function returns \<open>true\<close> only for \<open>TransferCompleted\<close>; the other outcomes are
  its \<open>false\<close> returns, named after the message shown. Database requests are taken to
  succeed; \<^verbatim>\<open>.single()\<close> fails unless exactly one row matches.
\<close>

record TransferData =
  transfersRemaining :: int
  transfersMadeThisGW :: int
  transfersBanked :: int
  maxTransfers :: int
  canMakeTransfers :: bool

datatype transfer_outcome =
  TransferCompleted | NoTransfersRemaining | TransfersNotAllowed
  | InsufficientBudget | FailedToCompleteTransfer

definition makeTransfer ::
  "uuid option \<Rightarrow> TransferData \<Rightarrow> uuid \<Rightarrow> uuid \<Rightarrow> uuid \<Rightarrow> database \<Rightarrow> transfer_outcome \<times> database" where
  "makeTransfer fantasyTeamId transferData outgoingPlayerId incomingPlayerId rosterId db =
     (case fantasyTeamId of
        None \<Rightarrow> (NoTransfersRemaining, db)
      | Some tid \<Rightarrow>
          if transfersRemaining transferData \<le> 0 then (NoTransfersRemaining, db)
          else if \<not> canMakeTransfers transferData then (TransfersNotAllowed, db)
          else
            (case filter (\<lambda>t. team_id t = tid) (fantasy_teams db) of
               [team] \<Rightarrow>
                 (case players db outgoingPlayerId of
                    None \<Rightarrow> (FailedToCompleteTransfer, db)
                  | Some outgoingPlayer \<Rightarrow>
                      (case players db incomingPlayerId of
                         None \<Rightarrow> (FailedToCompleteTransfer, db)
                       | Some incomingPlayer \<Rightarrow>
                           let priceDifference = price incomingPlayer - price outgoingPlayer;
                               newBudget = budget_remaining team - priceDifference
                           in
                           if newBudget < 0 then (InsufficientBudget, db)
                           else
                             (TransferCompleted,
                              db\<lparr> rosters :=
                                    map (\<lambda>r. if roster_id r = rosterId
                                              then r\<lparr> player_id := incomingPlayerId,
                                                      purchase_price := price incomingPlayer \<rparr>
                                              else r)
                                      (rosters db),
                                  fantasy_teams :=
                                    map (\<lambda>t. if team_id t = tid
                                              then t\<lparr> budget_remaining := newBudget,
                                                      transfers_made_this_gw :=
                                                        transfersMadeThisGW transferData + 1 \<rparr>
                                              else t)
                                      (fantasy_teams db),
                                  transactions :=
                                    transactions db @
                                    [\<lparr> tx_fantasy_team_id = tid, tx_player_id = outgoingPlayerId,
                                       tx_type = transfer_out,
                                       tx_gameweek = (if current_gameweek team = 0 then 1
                                                      else current_gameweek team),
                                       tx_price = price outgoingPlayer, transfer_cost = 0 \<rparr>,
                                     \<lparr> tx_fantasy_team_id = tid, tx_player_id = incomingPlayerId,
                                       tx_type = transfer_in,
                                       tx_gameweek = (if current_gameweek team = 0 then 1
                                                      else current_gameweek team),
                                       tx_price = price incomingPlayer, transfer_cost = 0 \<rparr>] \<rparr>)))
             | _ \<Rightarrow> (FailedToCompleteTransfer, db)))"

section \<open>Player points\<close>

text \<open>
  \<^verbatim>\<open>calculatePlayerPoints(playerId)\<close> of
  \<^verbatim>\<open>src/components/simulation/LiveMatchSimulation.tsx\<close>, over the component's
  \<open>playerStats\<close> dictionary and the list \<open>[...homePlayers, ...awayPlayers]\<close>.
  \<open>Math.floor(x / n)\<close> on integers is \<open>div\<close>, which rounds down.
\<close>

record PlayerStats =
  stat_minutes_played :: int
  goals :: int
  assists :: int
  clean_sheet :: bool
  yellow_cards :: int
  red_cards :: int
  saves :: int
  penalty_saves :: int
  penalty_misses :: int
  own_goals :: int
  goals_conceded :: int
  bonus_points :: int

record sim_player =
  sim_player_id :: uuid
  sim_position :: position

text \<open>The running sum \<open>points\<close>, statement by statement, before the final \<open>Math.max\<close>.\<close>

definition points_sum :: "PlayerStats \<Rightarrow> position \<Rightarrow> int" where
  "points_sum stats pos =
     (let points = 0;
          points = (if stat_minutes_played stats > 0 \<and> stat_minutes_played stats < 60
                    then points + 1
                    else if stat_minutes_played stats \<ge> 60 then points + 2 else points);
          points = (if goals stats > 0
                    then (case pos of
                            GK \<Rightarrow> points + goals stats * 10
                          | DEF \<Rightarrow> points + goals stats * 6
                          | MID \<Rightarrow> points + goals stats * 5
                          | FWD \<Rightarrow> points + goals stats * 4)
                    else points);
          points = points + assists stats * 3;
          points = (if clean_sheet stats
                    then (if pos = GK \<or> pos = DEF then points + 4
                          else if pos = MID then points + 1 else points)
                    else points);
          points = (if pos = GK
                    then points + saves stats div 3 + penalty_saves stats * 5
                         - goals_conceded stats div 2
                    else points);
          points = (if pos = DEF then points - goals_conceded stats div 2 else points);
          points = points - penalty_misses stats * 2;
          points = points - yellow_cards stats * 1;
          points = points - red_cards stats * 3;
          points = points - own_goals stats * 2;
          points = points + bonus_points stats
      in points)"

definition calculatePlayerPoints :: "(uuid \<rightharpoonup> PlayerStats) \<Rightarrow> sim_player list \<Rightarrow> uuid \<Rightarrow> int" where
  "calculatePlayerPoints playerStats allPlayers playerId =
     (case playerStats playerId of
        None \<Rightarrow> 0
      | Some stats \<Rightarrow>
          (case find (\<lambda>p. sim_player_id p = playerId) allPlayers of
             None \<Rightarrow> 0
           | Some player \<Rightarrow> max 0 (points_sum stats (sim_position player))))"

section \<open>Auxiliary definitions for the statements\<close>

text \<open>
  The substitution rule as the specification words it: the first-listed bench player
  of the team at the position whose minutes are positive. It is compared with
  \<open>find_substitute\<close>, the rule of the procedure.
\<close>

definition spec_first_listed_substitute :: "database \<Rightarrow> uuid \<Rightarrow> int \<Rightarrow> position \<Rightarrow> player_record option" where
  "spec_first_listed_substitute db tid gw pos =
     find (\<lambda>pr. pr_is_starter pr = Some False \<and> pr_position pr = pos \<and> pr_minutes_played pr > 0)
       (team_rows db tid gw)"

text \<open>
  The substitutions one run of the procedure's loop makes, as pairs (starter,
  substitute), in the order of the loop.
\<close>

definition substitutions :: "database \<Rightarrow> uuid \<Rightarrow> int \<Rightarrow> (uuid \<times> uuid) list" where
  "substitutions db tid gw =
     List.map_filter
       (\<lambda>pr. if pr_is_starter pr = Some True \<and> pr_minutes_played pr = 0
              then map_option (\<lambda>s. (pr_player_id pr, pr_player_id s))
                     (find_substitute db tid gw (pr_position pr))
              else None)
       (main_query db tid gw)"

text \<open>The columns of a gameweek that the flag updates leave alone.\<close>

definition window :: "gameweek_row \<Rightarrow> gameweek_status \<times> int option \<times> int option \<times> int option" where
  "window g = (status g, deadline_time g, start_time g, end_time g)"

definition status_by_time :: "int \<Rightarrow> gameweek_status \<times> int option \<times> int option \<times> int option \<Rightarrow> gameweek_status" where
  "status_by_time now w =
     (case w of
        (st, Some d, Some s, Some e) \<Rightarrow>
          (if now < d then upcoming else if now < s then locked
           else if now \<le> e then active else finalized)
      | (st, _, _, _) \<Rightarrow> st)"

section \<open>Concrete inputs\<close>

text \<open>Small databases with one fantasy team (id 1), used by the examples below.\<close>

definition slot :: "uuid \<Rightarrow> uuid \<Rightarrow> bool \<Rightarrow> bool \<Rightarrow> bool \<Rightarrow> roster" where
  "slot rid pid starter captain vice =
     \<lparr> roster_id = rid, fantasy_team_id = Some 1, player_id = pid, is_starter = Some starter,
       is_captain = Some captain, is_vice_captain = Some vice, purchase_price = 5 \<rparr>"

definition played :: "int \<Rightarrow> int \<Rightarrow> gameweek_score" where
  "played minutes pts = \<lparr> total_points = Some pts, minutes_played = Some minutes \<rparr>"

definition empty_database :: database where
  "empty_database =
     \<lparr> players = Map.empty, rosters = [], gameweek_scores = Map.empty, real_matches = [],
       fantasy_teams = [], fantasy_team_gameweek_points = [], gameweeks = [],
       transactions = [] \<rparr>"

definition two_bench_db :: database where
  "two_bench_db = empty_database
     \<lparr> players := [10 \<mapsto> \<lparr>position = DEF, price = 5\<rparr>, 11 \<mapsto> \<lparr>position = DEF, price = 5\<rparr>,
                    12 \<mapsto> \<lparr>position = DEF, price = 5\<rparr>],
       rosters := [slot 1 10 True False False, slot 2 11 False False False,
                   slot 3 12 False False False],
       gameweek_scores := [(11, 3) \<mapsto> played 90 2, (12, 3) \<mapsto> played 90 7] \<rparr>"

definition shared_bench_db :: database where
  "shared_bench_db = empty_database
     \<lparr> players := [10 \<mapsto> \<lparr>position = DEF, price = 5\<rparr>, 11 \<mapsto> \<lparr>position = DEF, price = 5\<rparr>,
                    12 \<mapsto> \<lparr>position = DEF, price = 5\<rparr>],
       rosters := [slot 1 10 True False False, slot 2 11 True False False,
                   slot 3 12 False False False],
       gameweek_scores := [(12, 1) \<mapsto> played 90 5] \<rparr>"

definition blank_captain_db :: database where
  "blank_captain_db = empty_database
     \<lparr> players := [20 \<mapsto> \<lparr>position = FWD, price = 8\<rparr>, 21 \<mapsto> \<lparr>position = MID, price = 6\<rparr>],
       rosters := [slot 1 20 True True False, slot 2 21 True False True],
       gameweek_scores := [(20, 1) \<mapsto> played 90 0, (21, 1) \<mapsto> played 90 5] \<rparr>"

definition absent_captain_db :: database where
  "absent_captain_db = empty_database
     \<lparr> players := [30 \<mapsto> \<lparr>position = FWD, price = 8\<rparr>, 31 \<mapsto> \<lparr>position = MID, price = 6\<rparr>],
       rosters := [slot 1 30 True True False, slot 2 31 True False True],
       gameweek_scores := [(31, 1) \<mapsto> played 90 5] \<rparr>"

definition one_team_db :: database where
  "one_team_db = empty_database
     \<lparr> players := [40 \<mapsto> \<lparr>position = MID, price = 6\<rparr>],
       rosters := [slot 1 40 True False False],
       gameweek_scores := [(40, 1) \<mapsto> played 90 6],
       real_matches := [\<lparr> match_id = 1, gameweek = 1, match_status = completed \<rparr>],
       fantasy_teams := [\<lparr> team_id = 1, league_id = Some 1, team_total_points = 0,
                            gameweek_points = 0, rank = 1, budget_remaining = 100,
                            transfers_made_this_gw = 1, transfers_banked = 0,
                            current_gameweek = 1 \<rparr>],
       gameweeks := [\<lparr> gameweek_number = 1, status = active, is_current = Some True,
                        is_next = Some False, deadline_time = Some 10, start_time = Some 20,
                        end_time = Some 30 \<rparr>] \<rparr>"

text \<open>The joined row of a starting defender who did not play, as the main query yields it.\<close>

definition absent_starter :: "uuid \<Rightarrow> player_record" where
  "absent_starter pid =
     \<lparr> pr_player_id = pid, pr_is_starter = Some True, pr_is_captain = Some False,
       pr_position = DEF, player_points = 0, pr_minutes_played = 0, gs_total_points = None \<rparr>"

definition unfinished_db :: database where
  "unfinished_db = one_team_db
     \<lparr> real_matches := [\<lparr> match_id = 1, gameweek = 1, match_status = completed \<rparr>,
                         \<lparr> match_id = 2, gameweek = 1, match_status = live \<rparr>] \<rparr>"

definition transfer_db :: database where
  "transfer_db = empty_database
     \<lparr> players := [50 \<mapsto> \<lparr>position = MID, price = 5\<rparr>, 51 \<mapsto> \<lparr>position = MID, price = 15 / 2\<rparr>],
       rosters := [slot 1 50 True False False],
       fantasy_teams := [\<lparr> team_id = 1, league_id = Some 1, team_total_points = 0,
                            gameweek_points = 0, rank = 1, budget_remaining = 2,
                            transfers_made_this_gw = 0, transfers_banked = 0,
                            current_gameweek = 1 \<rparr>] \<rparr>"

definition one_free_transfer :: TransferData where
  "one_free_transfer =
     \<lparr> transfersRemaining = 1, transfersMadeThisGW = 0, transfersBanked = 0,
       maxTransfers = 2, canMakeTransfers = True \<rparr>"

definition no_deadline_calendar :: "gameweek_row list" where
  "no_deadline_calendar =
     [\<lparr> gameweek_number = 1, status = finalized, is_current = Some False, is_next = Some False,
        deadline_time = Some 5, start_time = Some 10, end_time = Some 20 \<rparr>,
      \<lparr> gameweek_number = 2, status = upcoming, is_current = Some True, is_next = Some False,
        deadline_time = None, start_time = Some 200, end_time = Some 300 \<rparr>]"


definition zero_stats :: PlayerStats where
  "zero_stats =
     \<lparr> stat_minutes_played = 0, goals = 0, assists = 0, clean_sheet = False,
       yellow_cards = 0, red_cards = 0, saves = 0, penalty_saves = 0, penalty_misses = 0,
       own_goals = 0, goals_conceded = 0, bonus_points = 0 \<rparr>"

section \<open>Sorting and the substitute query\<close>

lemma sort_key_head_least:
  assumes "sort_key f xs = s # rest"
  shows "s \<in> set xs \<and> (\<forall>e \<in> set xs. f s \<le> f e)"
proof -
  have "set (sort_key f xs) = set xs" by simp
  then have mem: "s \<in> set xs" and sub: "set xs = insert s (set rest)"
    using assms by auto
  have "sorted (map f (sort_key f xs))" by (rule sorted_sort_key)
  then have "\<forall>e \<in> set rest. f s \<le> f e"
    using assms by simp
  then show ?thesis using mem sub by auto
qed

lemma desc_nulls_last_le:
  "desc_nulls_last a \<le> desc_nulls_last b \<longleftrightarrow>
     (case b of None \<Rightarrow> True | Some y \<Rightarrow> (case a of None \<Rightarrow> False | Some x \<Rightarrow> y \<le> x))"
  by (auto simp: desc_nulls_last_def split: option.splits)

lemma find_substitute_None:
  "find_substitute db tid gw pos = None \<longleftrightarrow> eligible_substitutes db tid gw pos = []"
proof -
  have "sort_key f xs = [] \<longleftrightarrow> xs = []" for f :: "player_record \<Rightarrow> nat \<times> int" and xs
    by (metis length_sort length_0_conv)
  then show ?thesis
    by (cases "sort_key (\<lambda>pr. desc_nulls_last (gs_total_points pr))
                 (eligible_substitutes db tid gw pos)")
       (auto simp: find_substitute_def)
qed

lemma find_substitute_Some:
  assumes "find_substitute db tid gw pos = Some s"
  shows "s \<in> set (eligible_substitutes db tid gw pos)"
    and "\<forall>e \<in> set (eligible_substitutes db tid gw pos).
           desc_nulls_last (gs_total_points s) \<le> desc_nulls_last (gs_total_points e)"
proof -
  from assms obtain rest where
    "sort_key (\<lambda>pr. desc_nulls_last (gs_total_points pr))
       (eligible_substitutes db tid gw pos) = s # rest"
    by (auto simp: find_substitute_def split: list.splits)
  from sort_key_head_least [OF this]
  show "s \<in> set (eligible_substitutes db tid gw pos)"
    and "\<forall>e \<in> set (eligible_substitutes db tid gw pos).
           desc_nulls_last (gs_total_points s) \<le> desc_nulls_last (gs_total_points e)"
    by auto
qed

lemma points_step_substituted:
  assumes "pr_is_starter pr = Some True" and "pr_minutes_played pr = 0"
  shows "fst (points_step db tid gw (t, c) pr) =
           (case find_substitute db tid gw (pr_position pr) of
              None \<Rightarrow> t | Some s \<Rightarrow> t + player_points s)"
  using assms by (simp add: points_step_def split: option.splits)

text \<open>
  The points a substitute brings do not depend on how SQL orders rows with equal
  totals: they are the greatest stored total among the eligible bench rows, or 0 when
  none of them has a stored total.
\<close>

lemma substitute_points_greatest:
  assumes "find_substitute db tid gw pos = Some s"
    and "e \<in> set (eligible_substitutes db tid gw pos)"
    and "gs_total_points e = Some y"
  shows "gs_total_points s = Some (player_points s) \<and> y \<le> player_points s"
proof -
  have "s \<in> set (eligible_substitutes db tid gw pos)"
    by (rule find_substitute_Some(1) [OF assms(1)])
  then obtain r where r: "join_roster db gw r = Some s"
    by (auto simp: eligible_substitutes_def team_rows_def List.map_filter_def)
  then have pts: "player_points s = coalesce (gs_total_points s) 0"
    by (auto simp: join_roster_def Let_def split: option.splits)
  from find_substitute_Some(2) [OF assms(1)] assms(2,3)
  obtain x where "gs_total_points s = Some x" "y \<le> x"
    by (fastforce simp: desc_nulls_last_le split: option.splits)
  with pts show ?thesis by (simp add: coalesce_def)
qed

section \<open>Team points: substitution\<close>

text \<open>
  Claim C1, as stated, fails on the procedure. In \<open>two_bench_db\<close> the starting
  defender 10 has no minutes; the bench lists defender 11 (90 minutes, 2 points) before
  defender 12 (90 minutes, 7 points). The first-listed eligible bench player is 11, but
  the procedure substitutes 12 and the team total is 7, not 2.
\<close>

theorem first_listed_substitute_counterexample:
  "map_option pr_player_id (spec_first_listed_substitute two_bench_db 1 3 DEF) = Some 11
   \<and> map_option player_points (spec_first_listed_substitute two_bench_db 1 3 DEF) = Some 2
   \<and> map_option pr_player_id (find_substitute two_bench_db 1 3 DEF) = Some 12
   \<and> calculate_fantasy_team_points two_bench_db 1 3 = 7"
  by code_simp

text \<open>
  Claim C1, amended: in the database procedure, for a starting slot whose player has
  no minutes, the substitute is the bench row of the team at the same position with
  positive minutes that ranks first by stored total points, descending, rows without
  a stored total last (no eligible row has a greater stored total). Its points are
  added to the team total where the starter's would have been; with no eligible bench
  row the total is left as it is.
\<close>

theorem substitute_is_top_scoring_bench_player:
  assumes "pr_is_starter pr = Some True" and "pr_minutes_played pr = 0"
  shows "case find_substitute db tid gw (pr_position pr) of
           None \<Rightarrow>
             eligible_substitutes db tid gw (pr_position pr) = [] \<and>
             fst (points_step db tid gw (t, c) pr) = t
         | Some s \<Rightarrow>
             s \<in> set (team_rows db tid gw) \<and>
             pr_is_starter s = Some False \<and> pr_position s = pr_position pr \<and>
             pr_minutes_played s > 0 \<and>
             (\<forall>e \<in> set (eligible_substitutes db tid gw (pr_position pr)).
                case gs_total_points e of
                  None \<Rightarrow> True
                | Some y \<Rightarrow> (case gs_total_points s of None \<Rightarrow> False | Some x \<Rightarrow> y \<le> x)) \<and>
             fst (points_step db tid gw (t, c) pr) = t + player_points s"
proof (cases "find_substitute db tid gw (pr_position pr)")
  case None
  then have "eligible_substitutes db tid gw (pr_position pr) = []"
    by (simp only: find_substitute_None)
  with None show ?thesis
    using points_step_substituted [OF assms, of db tid gw t c] by simp
next
  case (Some s)
  have mem: "s \<in> set (eligible_substitutes db tid gw (pr_position pr))"
    by (rule find_substitute_Some(1) [OF Some])
  have best: "\<forall>e \<in> set (eligible_substitutes db tid gw (pr_position pr)).
                case gs_total_points e of
                  None \<Rightarrow> True
                | Some y \<Rightarrow> (case gs_total_points s of None \<Rightarrow> False | Some x \<Rightarrow> y \<le> x)"
    using find_substitute_Some(2) [OF Some] by (simp add: desc_nulls_last_le)
  have step: "fst (points_step db tid gw (t, c) pr) = t + player_points s"
    using points_step_substituted [OF assms, of db tid gw t c] Some by simp
  from mem have "s \<in> set (team_rows db tid gw)" "pr_is_starter s = Some False"
    "pr_position s = pr_position pr" "pr_minutes_played s > 0"
    by (simp_all add: eligible_substitutes_def)
  with best step Some show ?thesis by simp
qed

theorem substitute_is_top_scoring_bench_player_witness:
  "pr_is_starter (absent_starter 10) = Some True
   \<and> pr_minutes_played (absent_starter 10) = 0
   \<and> map_option pr_player_id (find_substitute two_bench_db 1 3 DEF) = Some 12
   \<and> fst (points_step two_bench_db 1 3 (0, 0) (absent_starter 10)) = 7"
proof -
  have a: "pr_is_starter (absent_starter 10) = Some True"
    and b: "pr_minutes_played (absent_starter 10) = 0"
    and p: "pr_position (absent_starter 10) = DEF"
    by (simp_all add: absent_starter_def)
  have f: "map_option (\<lambda>s. (pr_player_id s, player_points s))
             (find_substitute two_bench_db 1 3 DEF) = Some (12, 7)"
    by code_simp
  then obtain s where s: "find_substitute two_bench_db 1 3 DEF = Some s"
    "pr_player_id s = 12" "player_points s = 7"
    by auto
  from substitute_is_top_scoring_bench_player [OF a b, of two_bench_db 1 3 0 0] s p
  have "fst (points_step two_bench_db 1 3 (0, 0) (absent_starter 10)) = 7"
    by simp
  with a b s show ?thesis by simp
qed

text \<open>
  The client-side fallback looks only at the first-listed bench player of the position
  and gives up when that one has no minutes: with the bench listed as 11 (no minutes)
  before 12 (90 minutes, 7 points) it substitutes nobody, where the procedure
  substitutes 12.
\<close>

lemma manual_fallback_first_bench_only:
  "calculateTeamPointsManual
     (two_bench_db\<lparr>gameweek_scores := [(12, 3) \<mapsto> played 90 7]\<rparr>) 1 3 = 0
   \<and> calculate_fantasy_team_points
     (two_bench_db\<lparr>gameweek_scores := [(12, 3) \<mapsto> played 90 7]\<rparr>) 1 3 = 7"
  by code_simp

text \<open>
  Claim C2, as stated, fails. In \<open>shared_bench_db\<close> two starting defenders, 10 and 11,
  have no minutes and the bench holds one defender, 12 (90 minutes, 5 points). The
  procedure substitutes 12 for both starters and the team total is 10: the bench
  player is used twice.
\<close>

theorem bench_player_reused_counterexample:
  "substitutions shared_bench_db 1 1 = [(10, 12), (11, 12)]
   \<and> calculate_fantasy_team_points shared_bench_db 1 1 = 10"
  by code_simp

text \<open>
  Claim C2, amended: the procedure keeps no record of the bench players it has used.
  The substitute search of a starter does not depend on earlier substitutions, so two
  starters without minutes at the same position get the same substitute, and its
  points are added to the team total once for each of them.
\<close>

theorem substitute_reused_for_each_starter:
  assumes "pr_is_starter pr1 = Some True" and "pr_minutes_played pr1 = 0"
    and "pr_is_starter pr2 = Some True" and "pr_minutes_played pr2 = 0"
    and "pr_position pr2 = pr_position pr1"
  shows "fst (points_step db tid gw (points_step db tid gw (t, c) pr1) pr2) =
           (case find_substitute db tid gw (pr_position pr1) of
              None \<Rightarrow> t
            | Some s \<Rightarrow> t + player_points s + player_points s)"
  using assms by (simp add: points_step_def split: option.splits)

theorem substitute_reused_for_each_starter_witness:
  "pr_is_starter (absent_starter 10) = Some True \<and> pr_minutes_played (absent_starter 10) = 0
   \<and> pr_is_starter (absent_starter 11) = Some True \<and> pr_minutes_played (absent_starter 11) = 0
   \<and> pr_position (absent_starter 11) = pr_position (absent_starter 10)
   \<and> map_option pr_player_id (find_substitute shared_bench_db 1 1 DEF) = Some 12
   \<and> fst (points_step shared_bench_db 1 1
             (points_step shared_bench_db 1 1 (0, 0) (absent_starter 10)) (absent_starter 11)) = 10"
proof -
  have a: "pr_is_starter (absent_starter 10) = Some True"
    "pr_minutes_played (absent_starter 10) = 0"
    "pr_is_starter (absent_starter 11) = Some True"
    "pr_minutes_played (absent_starter 11) = 0"
    "pr_position (absent_starter 11) = pr_position (absent_starter 10)"
    and p: "pr_position (absent_starter 10) = DEF"
    by (simp_all add: absent_starter_def)
  have f: "map_option (\<lambda>s. (pr_player_id s, player_points s))
             (find_substitute shared_bench_db 1 1 DEF) = Some (12, 5)"
    by code_simp
  then obtain s where s: "find_substitute shared_bench_db 1 1 DEF = Some s"
    "pr_player_id s = 12" "player_points s = 5"
    by auto
  from substitute_reused_for_each_starter [OF a, of shared_bench_db 1 1 0 0] s p
  have "fst (points_step shared_bench_db 1 1
               (points_step shared_bench_db 1 1 (0, 0) (absent_starter 10))
               (absent_starter 11)) = 10"
    by simp
  with a s show ?thesis by simp
qed

section \<open>Team points: captaincy\<close>

text \<open>
  Claim C3 on the procedure. The bonus is decided by \<open>captain_points > 0\<close>, not by
  whether the captain played. In \<open>blank_captain_db\<close> the captain 20 starts, plays 90
  minutes and scores 0; the vice-captain 21 scores 5. The procedure adds the
  vice-captain's 5 as the captaincy bonus (total 10), where the claim has the captain's
  own score, 0, added again (total 5).
\<close>

theorem vice_captain_bonus_for_playing_captain:
  "score_minutes blank_captain_db 20 1 = 90
   \<and> score_points blank_captain_db 20 1 = 0
   \<and> vice_captain_id blank_captain_db 1 = Some 21
   \<and> score_points blank_captain_db 21 1 = 5
   \<and> calculate_fantasy_team_points blank_captain_db 1 1 = 10"
  by code_simp

text \<open>
  Claim C8 on the two implementations. In \<open>absent_captain_db\<close> the captain 30 has no
  score row and there is no bench; the vice-captain 31 scores 5. The procedure falls
  back to the vice-captain and returns 10; the client-side fallback has no
  vice-captain rule and returns 5.
\<close>

theorem manual_fallback_differs:
  "calculate_fantasy_team_points absent_captain_db 1 1 = 10
   \<and> calculateTeamPointsManual absent_captain_db 1 1 = 5"
  by code_simp

section \<open>Player points\<close>

text \<open>
  Claim C4, as stated, fails. A goalkeeper with no minutes, \<open>cleanSheet\<close> set and
  nothing else scores 4, not 0: the clean-sheet points are awarded without a look at
  the minutes played.
\<close>

theorem clean_sheet_without_minutes_counterexample:
  "stat_minutes_played (zero_stats\<lparr>clean_sheet := True\<rparr>) = 0
   \<and> calculatePlayerPoints [7 \<mapsto> zero_stats\<lparr>clean_sheet := True\<rparr>]
        [\<lparr>sim_player_id = 7, sim_position = GK\<rparr>] 7 = 4
   \<and> calculatePlayerPoints [7 \<mapsto> zero_stats]
        [\<lparr>sim_player_id = 7, sim_position = GK\<rparr>] 7 = 0"
  by (simp add: calculatePlayerPoints_def points_sum_def zero_stats_def)

text \<open>
  Claim C4, amended: clean-sheet points (+4 for GK or DEF, +1 for MID, +0 for FWD) are
  awarded whenever \<open>cleanSheet\<close> is true, whatever the minutes played. For any stats
  and position, the sum with \<open>cleanSheet\<close> set exceeds the sum with it unset by exactly
  that award.
\<close>

theorem clean_sheet_award_any_minutes:
  "points_sum (stats\<lparr>clean_sheet := True\<rparr>) pos =
     points_sum (stats\<lparr>clean_sheet := False\<rparr>) pos
       + (case pos of GK \<Rightarrow> 4 | DEF \<Rightarrow> 4 | MID \<Rightarrow> 1 | FWD \<Rightarrow> 0)"
  by (cases pos) (simp_all add: points_sum_def Let_def)

section \<open>Finalizing a gameweek\<close>

text \<open>
  Claim C5 on the procedure. \<open>one_team_db\<close> has one team with 0 total points whose
  only starter scores 6 in gameweek 1, and the gameweek's match is completed. After
  one call the team's total is 6 and its ledger row holds 6; after a second call on
  the result the ledger row still holds 6, but the total is 12: the accumulation is
  applied again. The rollover columns have the same values after both calls.
\<close>

theorem finalize_twice_doubles_total_points:
  "map team_total_points (fantasy_teams (snd (finalize_gameweek 1 one_team_db))) = [6]
   \<and> map points (fantasy_team_gameweek_points (snd (finalize_gameweek 1 one_team_db))) = [6]
   \<and> map status (gameweeks (snd (finalize_gameweek 1 one_team_db))) = [finalized]
   \<and> map team_total_points
        (fantasy_teams (snd (finalize_gameweek 1 (snd (finalize_gameweek 1 one_team_db))))) = [12]
   \<and> map points
        (fantasy_team_gameweek_points
           (snd (finalize_gameweek 1 (snd (finalize_gameweek 1 one_team_db))))) = [6]"
  by code_simp

text \<open>
  Claim C6: \<open>finalize_gameweek\<close> raises its exception and leaves the database as it was
  whenever some match of the gameweek has a status other than completed, and it runs
  to the end when every match of the gameweek is completed.
\<close>

theorem finalize_gameweek_gate:
  "((\<exists>m \<in> set (real_matches db). gameweek m = gw \<and> match_status m \<noteq> completed) \<longrightarrow>
      finalize_gameweek gw db = (Inl (NotAllMatchesCompleted gw), db))
   \<and> ((\<forall>m \<in> set (real_matches db). gameweek m = gw \<longrightarrow> match_status m = completed) \<longrightarrow>
      fst (finalize_gameweek gw db) = Inr ())"
  by (auto simp: finalize_gameweek_def has_unfinished_match_def list_ex_iff)

theorem finalize_gameweek_gate_witness:
  "finalize_gameweek 1 unfinished_db = (Inl (NotAllMatchesCompleted 1), unfinished_db)
   \<and> fst (finalize_gameweek 1 one_team_db) = Inr ()"
proof -
  have a: "\<exists>m \<in> set (real_matches unfinished_db). gameweek m = 1 \<and> match_status m \<noteq> completed"
    by (simp add: unfinished_db_def)
  have b: "\<forall>m \<in> set (real_matches one_team_db). gameweek m = 1 \<longrightarrow> match_status m = completed"
    by (simp add: one_team_db_def)
  from finalize_gameweek_gate [of unfinished_db 1] a
  have "finalize_gameweek 1 unfinished_db = (Inl (NotAllMatchesCompleted 1), unfinished_db)"
    by blast
  moreover from finalize_gameweek_gate [of one_team_db 1] b
  have "fst (finalize_gameweek 1 one_team_db) = Inr ()"
    by blast
  ultimately show ?thesis by simp
qed

section \<open>Gameweek calendar\<close>


lemma window_set_current: "map window (set_current n gws) = map window gws"
  by (simp add: set_current_def window_def)

lemma window_set_next: "map window (set_next n gws) = map window gws"
  by (simp add: set_next_def window_def)

lemma window_flags:
  "map window (mark_next (mark_upcoming_current t (mark_live_current t (reset_flags gws))))
     = map window gws"
proof -
  have "map window (reset_flags gws) = map window gws"
    by (simp add: reset_flags_def window_def)
  moreover have "\<And>xs. map window (mark_live_current t xs) = map window xs"
    by (simp add: mark_live_current_def window_set_current)
  moreover have "\<And>xs. map window (mark_upcoming_current t xs) = map window xs"
    by (simp add: mark_upcoming_current_def window_set_current)
  moreover have "\<And>xs. map window (mark_next xs) = map window xs"
    by (simp add: mark_next_def window_set_next)
  ultimately show ?thesis by simp
qed

lemma status_time_status: "status (time_status t g) = status_by_time t (window g)"
  by (simp add: time_status_def status_by_time_def window_def split: option.splits)



text \<open>
  The claim holds of the function only because no call gets past the failing
  comparison. The statements themselves, given a timestamp to compare with, set the
  status of every gameweek with a complete window from the time alone, whatever the
  status was.
\<close>

lemma statements_recompute_status_from_time:
  "map status (map (time_status t)
     (mark_next (mark_upcoming_current t (mark_live_current t (reset_flags gws))))) =
     map (\<lambda>g. case deadline_time g of
                 None \<Rightarrow> status g
               | Some d \<Rightarrow>
                   (case start_time g of
                      None \<Rightarrow> status g
                    | Some s \<Rightarrow>
                        (case end_time g of
                           None \<Rightarrow> status g
                         | Some e \<Rightarrow>
                             if t < d then upcoming
                             else if t < s then locked
                             else if t \<le> e then active
                             else finalized))) gws"
proof -
  have "map status (map (time_status t)
          (mark_next (mark_upcoming_current t (mark_live_current t (reset_flags gws)))))
        = map (status_by_time t) (map window
            (mark_next (mark_upcoming_current t (mark_live_current t (reset_flags gws)))))"
    by (simp add: status_time_status)
  also have "\<dots> = map (status_by_time t) (map window gws)"
    by (simp only: window_flags)
  also have "\<dots> = map (\<lambda>g. case deadline_time g of
                 None \<Rightarrow> status g
               | Some d \<Rightarrow>
                   (case start_time g of
                      None \<Rightarrow> status g
                    | Some s \<Rightarrow>
                        (case end_time g of
                           None \<Rightarrow> status g
                         | Some e \<Rightarrow>
                             if t < d then upcoming
                             else if t < s then locked
                             else if t \<le> e then active
                             else finalized))) gws"
    by (simp add: status_by_time_def window_def split: option.splits)
  finally show ?thesis .
qed

lemma transfers_allowed_always_raises:
  "transfers_allowed now gws = Inl operator_does_not_exist"
  by (simp add: transfers_allowed_def CURRENT_TIME_def compared_with_timestamptz_def)

text \<open>
  Claim C10 on the function. With no gameweek flagged current or next (an empty
  table), and with the only flagged gameweek having no deadline, the claim has
  \<open>transfers_allowed\<close> return true; the function raises
  \<^verbatim>\<open>operator does not exist\<close> instead, as it does on every call, and returns nothing.
\<close>

theorem transfers_allowed_raises:
  "transfers_allowed 100 [] = Inl operator_does_not_exist
   \<and> transfers_allowed 100 no_deadline_calendar = Inl operator_does_not_exist"
  by (simp add: transfers_allowed_def CURRENT_TIME_def compared_with_timestamptz_def)

section \<open>Transfers\<close>

text \<open>Every outcome other than a completed transfer leaves the database as it was.\<close>

lemma makeTransfer_failure_no_writes:
  "fst (makeTransfer ft td outgoingPlayerId incomingPlayerId rosterId db) \<noteq> TransferCompleted
   \<Longrightarrow> snd (makeTransfer ft td outgoingPlayerId incomingPlayerId rosterId db) = db"
  by (auto simp: makeTransfer_def Let_def split: option.splits list.splits if_splits)

text \<open>
  Claim C9: when the incoming player's price less the outgoing player's price exceeds
  the team's remaining budget, \<open>makeTransfer\<close> does not complete and the database
  (budget and roster slot included) is as it was; with a transfer left and transfers
  allowed, the outcome is the insufficient-budget failure, decided before any update.
\<close>

theorem makeTransfer_budget_guard:
  assumes "filter (\<lambda>t. team_id t = tid) (fantasy_teams db) = [team]"
    and "players db outgoingPlayerId = Some outgoingPlayer"
    and "players db incomingPlayerId = Some incomingPlayer"
    and "price incomingPlayer - price outgoingPlayer > budget_remaining team"
  shows "fst (makeTransfer (Some tid) td outgoingPlayerId incomingPlayerId rosterId db)
           \<noteq> TransferCompleted
       \<and> snd (makeTransfer (Some tid) td outgoingPlayerId incomingPlayerId rosterId db) = db
       \<and> (transfersRemaining td > 0 \<and> canMakeTransfers td \<longrightarrow>
            makeTransfer (Some tid) td outgoingPlayerId incomingPlayerId rosterId db
              = (InsufficientBudget, db))"
  using assms by (simp add: makeTransfer_def Let_def)

theorem makeTransfer_budget_guard_witness:
  "makeTransfer (Some 1) one_free_transfer 50 51 1 transfer_db = (InsufficientBudget, transfer_db)
   \<and> map budget_remaining (fantasy_teams transfer_db) = [2]"
proof -
  define team where "team = hd (fantasy_teams transfer_db)"
  have a: "filter (\<lambda>t. team_id t = 1) (fantasy_teams transfer_db) = [team]"
    by (simp add: team_def transfer_db_def empty_database_def)
  have b: "players transfer_db 50 = Some \<lparr>position = MID, price = 5\<rparr>"
    and c: "players transfer_db 51 = Some \<lparr>position = MID, price = 15 / 2\<rparr>"
    by (simp_all add: transfer_db_def empty_database_def)
  have d: "price \<lparr>position = MID, price = 15 / 2\<rparr> - price \<lparr>position = MID, price = 5\<rparr>
             > budget_remaining team"
    by (simp add: team_def transfer_db_def empty_database_def)
  have e: "transfersRemaining one_free_transfer > 0 \<and> canMakeTransfers one_free_transfer"
    by (simp add: one_free_transfer_def)
  from makeTransfer_budget_guard [OF a b c d, of one_free_transfer 1] e
  have "makeTransfer (Some 1) one_free_transfer 50 51 1 transfer_db
          = (InsufficientBudget, transfer_db)"
    by blast
  moreover have "map budget_remaining (fantasy_teams transfer_db) = [2]"
    by (simp add: transfer_db_def empty_database_def)
  ultimately show ?thesis by simp
qed

end
